theory Spec2Isabelle
  imports Complex_Main
begin

section \<open>The anomaly dashboard of see-my-model\<close>

text \<open>
  The development embeds \<^verbatim>\<open>src/components/MLDashboard.tsx\<close>: the component state, the
  click handler \<^verbatim>\<open>handlePredict\<close> with its ten threshold checks, and
  \<^verbatim>\<open>loadSampleData\<close>. Rendering (the JSX tree) is not modelled, nor is the earlier
  variant of the component, which reads a comma-separated embedding vector and has no
  threshold checks.
\<close>

subsection \<open>Numbers\<close>

text \<open>
  A TypeScript \<^verbatim>\<open>number\<close> is a double: a finite value, one of the two infinities, or
  NaN. The finite doubles are embedded in the reals; the handler only compares the
  fields with constants, and a comparison of two finite doubles is the comparison of
  their values. A comparison with NaN on either side is false.
\<close>

datatype number = Fin real | PosInfinity | NegInfinity | NaN

fun js_lt :: "number \<Rightarrow> number \<Rightarrow> bool" where
  "js_lt NaN b = False"
| "js_lt a NaN = False"
| "js_lt (Fin a) (Fin b) = (a < b)"
| "js_lt (Fin a) PosInfinity = True"
| "js_lt (Fin a) NegInfinity = False"
| "js_lt NegInfinity (Fin b) = True"
| "js_lt NegInfinity PosInfinity = True"
| "js_lt NegInfinity NegInfinity = False"
| "js_lt PosInfinity b = False"

definition js_gt :: "number \<Rightarrow> number \<Rightarrow> bool" where
  "js_gt a b = js_lt b a"

subsection \<open>Data\<close>

record PredictionResult =
  probability :: real
  prediction :: string
  confidence :: real
  anomaly_flag :: bool
  triggered_factors :: "string list"

record AnomalyFactors =
  deviation_score :: number
  time_since_last_activity :: number
  signal_status :: string
  altitude_change :: number
  heart_rate :: number
  oxygen_saturation :: number
  body_temperature :: number
  fall_detected :: bool

text \<open>
  The calls \<^verbatim>\<open>toast.success\<close> and \<^verbatim>\<open>toast.error\<close> are the handler's only output; the
  model appends them to a log kept in the state.
\<close>

datatype toast = Success string | Error string

text \<open>
  The component state: the three \<^verbatim>\<open>useState\<close> cells the handlers write. The cell
  \<^verbatim>\<open>prediction\<close> is named \<open>prediction_st\<close> here, since \<open>prediction\<close> is already
  the field of \<open>PredictionResult\<close>.
\<close>

record dashboard =
  factors :: AnomalyFactors
  prediction_st :: "PredictionResult option"
  isLoading :: bool
  toasts :: "toast list"

definition default_factors :: AnomalyFactors where
  "default_factors =
     \<lparr>deviation_score = Fin 0,
      time_since_last_activity = Fin 0,
      signal_status = ''normal'',
      altitude_change = Fin 0,
      heart_rate = Fin 70,
      oxygen_saturation = Fin 98,
      body_temperature = Fin 36.5,
      fall_detected = False\<rparr>"

definition MLDashboard :: dashboard where
  "MLDashboard =
     \<lparr>factors = default_factors, prediction_st = None, isLoading = False, toasts = []\<rparr>"

subsection \<open>The handlers\<close>

definition push :: "'a list \<Rightarrow> 'a \<Rightarrow> 'a list" where
  "push xs x = xs @ [x]"

text \<open>
  The block under \<^verbatim>\<open>// Check anomaly criteria\<close>: an empty array and ten guarded
  pushes, one after the other. \<open>t\<^sub>k\<close> is the array after the \<open>k\<close>-th statement.
\<close>

definition triggeredFactors :: "AnomalyFactors \<Rightarrow> string list" where
  "triggeredFactors f =
     (let t0 = [];
          t1 = (if js_gt (deviation_score f) (Fin 200)
                then push t0 ''Route deviation'' else t0);
          t2 = (if js_gt (time_since_last_activity f) (Fin 30)
                then push t1 ''Prolonged inactivity'' else t1);
          t3 = (if signal_status f = ''silent'' \<and> js_gt (time_since_last_activity f) (Fin 20)
                then push t2 ''Silent behavior'' else t2);
          t4 = (if signal_status f = ''missing''
                then push t3 ''Missing signal'' else t3);
          t5 = (if signal_status f = ''distress''
                then push t4 ''Distress signal'' else t4);
          t6 = (if js_lt (altitude_change f) (Fin (- 15))
                then push t5 ''Sudden altitude drop'' else t5);
          t7 = (if js_lt (heart_rate f) (Fin 45) \<or> js_gt (heart_rate f) (Fin 150)
                then push t6 ''Heart rate anomaly'' else t6);
          t8 = (if js_lt (oxygen_saturation f) (Fin 90)
                then push t7 ''Oxygen anomaly'' else t7);
          t9 = (if js_gt (body_temperature f) (Fin 38.5)
                then push t8 ''Temperature anomaly'' else t8);
          t10 = (if fall_detected f
                 then push t9 ''Fall detected'' else t9)
      in t10)"

text \<open>
  The body of the \<^verbatim>\<open>try\<close> block. \<open>rnd\<close> is the value \<^verbatim>\<open>Math.random()\<close> returns (one
  call runs, in whichever branch of the conditional is taken); the two-second wait has
  no effect on the values. \<open>Inl\<close> would carry the message of a thrown error to the
  \<^verbatim>\<open>catch\<close> handler. The probability is cosmetic; its arithmetic is taken over the reals.
\<close>

definition handlePredict_try :: "AnomalyFactors \<Rightarrow> real \<Rightarrow> string + PredictionResult" where
  "handlePredict_try f rnd =
     (let triggered = triggeredFactors f;
          flag = (length triggered > 0);
          mockProbability = (if flag then 0.85 + rnd * 0.15 else 0.15 + rnd * 0.3)
      in Inr \<lparr>probability = mockProbability,
              prediction = (if flag then ''Anomaly Detected'' else ''Normal Behavior''),
              confidence = mockProbability,
              anomaly_flag = flag,
              triggered_factors = triggered\<rparr>)"

definition handlePredict :: "dashboard \<Rightarrow> real \<Rightarrow> dashboard" where
  "handlePredict s rnd =
     (let s1 = s\<lparr>isLoading := True\<rparr>;
          s2 = (case handlePredict_try (factors s1) rnd of
                  Inr r \<Rightarrow>
                    s1\<lparr>prediction_st := Some r,
                       toasts := push (toasts s1) (Success ''Prediction completed successfully!'')\<rparr>
                | Inl msg \<Rightarrow> s1\<lparr>toasts := push (toasts s1) (Error msg)\<rparr>)
      in s2\<lparr>isLoading := False\<rparr>)"

definition sample_factors :: AnomalyFactors where
  "sample_factors =
     \<lparr>deviation_score = Fin 250,
      time_since_last_activity = Fin 35,
      signal_status = ''silent'',
      altitude_change = Fin (- 20),
      heart_rate = Fin 160,
      oxygen_saturation = Fin 85,
      body_temperature = Fin 39.2,
      fall_detected = True\<rparr>"

definition loadSampleData :: "dashboard \<Rightarrow> dashboard" where
  "loadSampleData s =
     s\<lparr>factors := sample_factors,
       toasts := push (toasts s) (Success ''Sample anomaly data loaded'')\<rparr>"

subsection \<open>The rule table of the specification\<close>

text \<open>
  This definition follows the specification's words, not the source: the table of
  section 4.1, one row per rule in the order 1 to 10, each row a predicate on the input
  record and the label the rule contributes. It is what the source's
  \<open>triggeredFactors\<close> is compared with.
\<close>

definition spec_rules :: "((AnomalyFactors \<Rightarrow> bool) \<times> string) list" where
  "spec_rules =
     [(\<lambda>f. js_gt (deviation_score f) (Fin 200), ''Route deviation''),
      (\<lambda>f. js_gt (time_since_last_activity f) (Fin 30), ''Prolonged inactivity''),
      (\<lambda>f. signal_status f = ''silent'' \<and> js_gt (time_since_last_activity f) (Fin 20),
         ''Silent behavior''),
      (\<lambda>f. signal_status f = ''missing'', ''Missing signal''),
      (\<lambda>f. signal_status f = ''distress'', ''Distress signal''),
      (\<lambda>f. js_lt (altitude_change f) (Fin (- 15)), ''Sudden altitude drop''),
      (\<lambda>f. js_lt (heart_rate f) (Fin 45) \<or> js_gt (heart_rate f) (Fin 150),
         ''Heart rate anomaly''),
      (\<lambda>f. js_lt (oxygen_saturation f) (Fin 90), ''Oxygen anomaly''),
      (\<lambda>f. js_gt (body_temperature f) (Fin 38.5), ''Temperature anomaly''),
      (\<lambda>f. fall_detected f = True, ''Fall detected'')]"

definition fired :: "AnomalyFactors \<Rightarrow> string list" where
  "fired f = map snd (filter (\<lambda>rule. fst rule f) spec_rules)"

subsection \<open>What the handler stores\<close>

lemma handlePredict_try_Inr:
  "handlePredict_try f rnd =
     Inr \<lparr>probability = (if triggeredFactors f \<noteq> [] then 0.85 + rnd * 0.15 else 0.15 + rnd * 0.3),
          prediction = (if triggeredFactors f \<noteq> [] then ''Anomaly Detected'' else ''Normal Behavior''),
          confidence = (if triggeredFactors f \<noteq> [] then 0.85 + rnd * 0.15 else 0.15 + rnd * 0.3),
          anomaly_flag = (triggeredFactors f \<noteq> []),
          triggered_factors = triggeredFactors f\<rparr>"
  by (simp add: handlePredict_try_def Let_def)

lemma handlePredict_final:
  "handlePredict s rnd =
     s\<lparr>prediction_st :=
          Some \<lparr>probability = (if triggeredFactors (factors s) \<noteq> [] then 0.85 + rnd * 0.15 else 0.15 + rnd * 0.3),
                prediction = (if triggeredFactors (factors s) \<noteq> [] then ''Anomaly Detected'' else ''Normal Behavior''),
                confidence = (if triggeredFactors (factors s) \<noteq> [] then 0.85 + rnd * 0.15 else 0.15 + rnd * 0.3),
                anomaly_flag = (triggeredFactors (factors s) \<noteq> []),
                triggered_factors = triggeredFactors (factors s)\<rparr>,
       toasts := toasts s @ [Success ''Prediction completed successfully!''],
       isLoading := False\<rparr>"
  by (simp add: handlePredict_def handlePredict_try_Inr Let_def push_def)

lemma handlePredict_stores:
  "\<exists>r. prediction_st (handlePredict s rnd) = Some r
     \<and> triggered_factors r = triggeredFactors (factors s)
     \<and> anomaly_flag r = (triggeredFactors (factors s) \<noteq> [])"
  by (simp add: handlePredict_final)

lemma handlePredict_factors: "factors (handlePredict s rnd) = factors s"
  by (simp add: handlePredict_final)

subsection \<open>The ten pushes as one concatenation\<close>

lemma push_if: "(if c then push t x else t) = t @ (if c then [x] else [])"
  by (simp add: push_def)

lemma filter_Cons_append: "filter P (x # xs) = (if P x then [x] else []) @ filter P xs"
  by simp

lemma map_if_single: "map g (if c then [x] else []) = (if c then [g x] else [])"
  by simp

lemma filter_if_single: "filter Q (if c then [x] else []) = (if c \<and> Q x then [x] else [])"
  by (cases c) simp_all

lemma mem_if_single: "(l \<in> set (if c then [x] else [])) = (c \<and> l = x)"
  by (cases c) auto

lemma triggeredFactors_chain:
  "triggeredFactors f =
     (if js_gt (deviation_score f) (Fin 200) then [''Route deviation''] else []) @
     (if js_gt (time_since_last_activity f) (Fin 30) then [''Prolonged inactivity''] else []) @
     (if signal_status f = ''silent'' \<and> js_gt (time_since_last_activity f) (Fin 20)
      then [''Silent behavior''] else []) @
     (if signal_status f = ''missing'' then [''Missing signal''] else []) @
     (if signal_status f = ''distress'' then [''Distress signal''] else []) @
     (if js_lt (altitude_change f) (Fin (- 15)) then [''Sudden altitude drop''] else []) @
     (if js_lt (heart_rate f) (Fin 45) \<or> js_gt (heart_rate f) (Fin 150)
      then [''Heart rate anomaly''] else []) @
     (if js_lt (oxygen_saturation f) (Fin 90) then [''Oxygen anomaly''] else []) @
     (if js_gt (body_temperature f) (Fin 38.5) then [''Temperature anomaly''] else []) @
     (if fall_detected f then [''Fall detected''] else [])"
  unfolding triggeredFactors_def Let_def push_if
  by (simp only: append_Nil append_assoc)

lemma fired_chain:
  "fired f =
     (if js_gt (deviation_score f) (Fin 200) then [''Route deviation''] else []) @
     (if js_gt (time_since_last_activity f) (Fin 30) then [''Prolonged inactivity''] else []) @
     (if signal_status f = ''silent'' \<and> js_gt (time_since_last_activity f) (Fin 20)
      then [''Silent behavior''] else []) @
     (if signal_status f = ''missing'' then [''Missing signal''] else []) @
     (if signal_status f = ''distress'' then [''Distress signal''] else []) @
     (if js_lt (altitude_change f) (Fin (- 15)) then [''Sudden altitude drop''] else []) @
     (if js_lt (heart_rate f) (Fin 45) \<or> js_gt (heart_rate f) (Fin 150)
      then [''Heart rate anomaly''] else []) @
     (if js_lt (oxygen_saturation f) (Fin 90) then [''Oxygen anomaly''] else []) @
     (if js_gt (body_temperature f) (Fin 38.5) then [''Temperature anomaly''] else []) @
     (if fall_detected f then [''Fall detected''] else [])"
  unfolding fired_def spec_rules_def
  by (simp only: filter_Cons_append filter.simps(1) map_append map_if_single list.map
        fst_conv snd_conv append_Nil2 eq_True)

lemma triggeredFactors_fired: "triggeredFactors f = fired f"
  by (simp only: triggeredFactors_chain fired_chain)

lemma label_iff:
  "(''Route deviation'' \<in> set (triggeredFactors f)) = js_gt (deviation_score f) (Fin 200)"
  "(''Prolonged inactivity'' \<in> set (triggeredFactors f)) = js_gt (time_since_last_activity f) (Fin 30)"
  "(''Silent behavior'' \<in> set (triggeredFactors f))
     = (signal_status f = ''silent'' \<and> js_gt (time_since_last_activity f) (Fin 20))"
  "(''Missing signal'' \<in> set (triggeredFactors f)) = (signal_status f = ''missing'')"
  "(''Distress signal'' \<in> set (triggeredFactors f)) = (signal_status f = ''distress'')"
  "(''Sudden altitude drop'' \<in> set (triggeredFactors f)) = js_lt (altitude_change f) (Fin (- 15))"
  "(''Heart rate anomaly'' \<in> set (triggeredFactors f))
     = (js_lt (heart_rate f) (Fin 45) \<or> js_gt (heart_rate f) (Fin 150))"
  "(''Oxygen anomaly'' \<in> set (triggeredFactors f)) = js_lt (oxygen_saturation f) (Fin 90)"
  "(''Temperature anomaly'' \<in> set (triggeredFactors f)) = js_gt (body_temperature f) (Fin 38.5)"
  "(''Fall detected'' \<in> set (triggeredFactors f)) = (fall_detected f = True)"
  unfolding triggeredFactors_chain set_append Un_iff mem_if_single by simp_all

lemma labels_distinct: "distinct (map snd spec_rules)"
  by (simp add: spec_rules_def)

lemma length_spec_rules: "length spec_rules = 10"
  by (simp add: spec_rules_def)

lemma fired_nonempty: "(fired f \<noteq> []) = (\<exists>rule \<in> set spec_rules. fst rule f)"
  by (simp add: fired_def filter_empty_conv)

lemma triggeredFactors_default: "triggeredFactors default_factors = []"
  by (simp add: triggeredFactors_def default_factors_def js_gt_def push_def)

lemma triggeredFactors_sample:
  "triggeredFactors sample_factors =
     [''Route deviation'', ''Prolonged inactivity'', ''Silent behavior'',
      ''Sudden altitude drop'', ''Heart rate anomaly'', ''Oxygen anomaly'',
      ''Temperature anomaly'', ''Fall detected'']"
  by (simp add: triggeredFactors_def sample_factors_def js_gt_def push_def)

subsection \<open>Inputs at the thresholds\<close>

lemma boundary_none:
  assumes "deviation_score f \<in> {Fin 0, Fin 200}"
    and "time_since_last_activity f \<in> {Fin 0, Fin 30}"
    and "signal_status f = ''normal''"
    and "altitude_change f \<in> {Fin 0, Fin (- 15)}"
    and "heart_rate f \<in> {Fin 70, Fin 45, Fin 150}"
    and "oxygen_saturation f \<in> {Fin 98, Fin 90}"
    and "body_temperature f \<in> {Fin 36.5, Fin 38.5}"
    and "fall_detected f = False"
  shows "triggeredFactors f = []"
proof -
  have 1: "\<not> js_gt (deviation_score f) (Fin 200)"
    using assms(1) by (auto simp: js_gt_def)
  have 2: "\<not> js_gt (time_since_last_activity f) (Fin 30)"
    using assms(2) by (auto simp: js_gt_def)
  have 3: "signal_status f \<noteq> ''silent''" "signal_status f \<noteq> ''missing''"
    "signal_status f \<noteq> ''distress''"
    using assms(3) by simp_all
  have 6: "\<not> js_lt (altitude_change f) (Fin (- 15))"
    using assms(4) by auto
  have 7: "\<not> js_lt (heart_rate f) (Fin 45)" "\<not> js_gt (heart_rate f) (Fin 150)"
    using assms(5) by (auto simp: js_gt_def)
  have 8: "\<not> js_lt (oxygen_saturation f) (Fin 90)"
    using assms(6) by auto
  have 9: "\<not> js_gt (body_temperature f) (Fin 38.5)"
    using assms(7) by (auto simp: js_gt_def)
  have 10: "\<not> fall_detected f"
    using assms(8) by simp
  show ?thesis
    unfolding triggeredFactors_chain
    by (simp only: 1 2 3 6 7 8 9 10 simp_thms if_False append_Nil)
qed

subsection \<open>Exactly one rule\<close>

lemma filter_only_index:
  assumes "i < length xs" and "\<forall>j<length xs. P (xs ! j) = (j = i)"
  shows "filter P xs = [xs ! i]"
proof -
  have parts: "xs = take i xs @ xs ! i # drop (Suc i) xs"
    using assms(1) by (rule id_take_nth_drop)
  have before: "filter P (take i xs) = []"
    using assms by (auto simp: filter_empty_conv in_set_conv_nth)
  have after: "filter P (drop (Suc i) xs) = []"
    using assms by (auto simp: filter_empty_conv in_set_conv_nth)
  have "filter P xs = filter P (take i xs @ xs ! i # drop (Suc i) xs)"
    using parts by simp
  also have "\<dots> = [xs ! i]"
    using assms before after by simp
  finally show ?thesis .
qed

lemma only_rule:
  assumes "i < length spec_rules"
    and "\<forall>j<length spec_rules. fst (spec_rules ! j) f = (j = i)"
  shows "triggeredFactors f = [snd (spec_rules ! i)]"
proof -
  have "filter (\<lambda>rule. fst rule f) spec_rules = [spec_rules ! i]"
    using assms by (intro filter_only_index) auto
  then show ?thesis
    by (simp add: triggeredFactors_fired fired_def)
qed

lemma all_rules:
  "(\<forall>j<length spec_rules. P j) =
     (P 0 \<and> P 1 \<and> P 2 \<and> P 3 \<and> P 4 \<and> P 5 \<and> P 6 \<and> P 7 \<and> P 8 \<and> P 9)"
  by (simp add: length_spec_rules eval_nat_numeral All_less_Suc conj_ac)

lemma rule_labels:
  "snd (spec_rules ! 0) = ''Route deviation''"
  "snd (spec_rules ! 1) = ''Prolonged inactivity''"
  "snd (spec_rules ! 2) = ''Silent behavior''"
  "snd (spec_rules ! 3) = ''Missing signal''"
  "snd (spec_rules ! 4) = ''Distress signal''"
  "snd (spec_rules ! 5) = ''Sudden altitude drop''"
  "snd (spec_rules ! 6) = ''Heart rate anomaly''"
  "snd (spec_rules ! 7) = ''Oxygen anomaly''"
  "snd (spec_rules ! 8) = ''Temperature anomaly''"
  "snd (spec_rules ! 9) = ''Fall detected''"
  by (simp_all add: spec_rules_def)

subsection \<open>No label twice, one signal label at most\<close>

lemma triggered_distinct: "distinct (triggeredFactors f)"
  unfolding triggeredFactors_fired fired_def
  by (rule distinct_map_filter) (rule labels_distinct)

lemma triggered_length: "length (triggeredFactors f) \<le> 10"
proof -
  have "length (triggeredFactors f) \<le> length spec_rules"
    unfolding triggeredFactors_fired fired_def by simp
  then show ?thesis by (simp add: length_spec_rules)
qed

lemma signal_labels:
  "filter (\<lambda>l. l \<in> {''Silent behavior'', ''Missing signal'', ''Distress signal''}) (triggeredFactors f) =
     (if signal_status f = ''silent'' \<and> js_gt (time_since_last_activity f) (Fin 20)
      then [''Silent behavior''] else []) @
     (if signal_status f = ''missing'' then [''Missing signal''] else []) @
     (if signal_status f = ''distress'' then [''Distress signal''] else [])"
  unfolding triggeredFactors_chain filter_append filter_if_single
  by simp

lemma signal_labels_length:
  "length (filter (\<lambda>l. l \<in> {''Silent behavior'', ''Missing signal'', ''Distress signal''})
     (triggeredFactors f)) \<le> 1"
  unfolding signal_labels by simp

subsection \<open>The random draw and values out of range\<close>

text \<open>
  The random draw does reach the stored record, through the probability only.
\<close>

lemma probability_varies:
  "map_option probability (prediction_st (handlePredict MLDashboard 0))
     \<noteq> map_option probability (prediction_st (handlePredict MLDashboard (1 / 2)))"
  by (simp add: handlePredict_final)

text \<open>
  Nothing validates the fields: a negative saturation, a negative heart rate, an
  infinite temperature, NaN and a signal status outside the four known ones are
  compared as they are.
\<close>

lemma out_of_range_examples:
  "triggeredFactors (default_factors\<lparr>oxygen_saturation := Fin (- 5)\<rparr>) = [''Oxygen anomaly'']"
  "triggeredFactors (default_factors\<lparr>heart_rate := Fin (- 1)\<rparr>) = [''Heart rate anomaly'']"
  "triggeredFactors (default_factors\<lparr>body_temperature := PosInfinity\<rparr>) = [''Temperature anomaly'']"
  "triggeredFactors (default_factors\<lparr>oxygen_saturation := NaN, heart_rate := NaN\<rparr>) = []"
  "triggeredFactors (default_factors\<lparr>signal_status := ''offline''\<rparr>) = []"
  by (simp_all add: triggeredFactors_def default_factors_def js_gt_def push_def)

section \<open>The claims\<close>

text \<open>
  C1. For every input record, the stored list of triggered factors is the list of the
  labels of the rules of the table whose predicate holds, in the table's order 1 to 10:
  each of the ten labels is in the list if and only if its own predicate holds, a rule
  contributes its label at most once (the ten labels are pairwise distinct), and the
  order is the rule order.
\<close>

theorem triggered_factors_follow_rule_table:
  "\<exists>r. prediction_st (handlePredict s rnd) = Some r
     \<and> triggered_factors r = fired (factors s)
     \<and> distinct (map snd spec_rules) \<and> length spec_rules = 10
     \<and> (''Route deviation'' \<in> set (triggered_factors r))
         = js_gt (deviation_score (factors s)) (Fin 200)
     \<and> (''Prolonged inactivity'' \<in> set (triggered_factors r))
         = js_gt (time_since_last_activity (factors s)) (Fin 30)
     \<and> (''Silent behavior'' \<in> set (triggered_factors r))
         = (signal_status (factors s) = ''silent''
            \<and> js_gt (time_since_last_activity (factors s)) (Fin 20))
     \<and> (''Missing signal'' \<in> set (triggered_factors r))
         = (signal_status (factors s) = ''missing'')
     \<and> (''Distress signal'' \<in> set (triggered_factors r))
         = (signal_status (factors s) = ''distress'')
     \<and> (''Sudden altitude drop'' \<in> set (triggered_factors r))
         = js_lt (altitude_change (factors s)) (Fin (- 15))
     \<and> (''Heart rate anomaly'' \<in> set (triggered_factors r))
         = (js_lt (heart_rate (factors s)) (Fin 45) \<or> js_gt (heart_rate (factors s)) (Fin 150))
     \<and> (''Oxygen anomaly'' \<in> set (triggered_factors r))
         = js_lt (oxygen_saturation (factors s)) (Fin 90)
     \<and> (''Temperature anomaly'' \<in> set (triggered_factors r))
         = js_gt (body_temperature (factors s)) (Fin 38.5)
     \<and> (''Fall detected'' \<in> set (triggered_factors r))
         = (fall_detected (factors s) = True)"
proof -
  obtain r where r: "prediction_st (handlePredict s rnd) = Some r"
    and tr: "triggered_factors r = triggeredFactors (factors s)"
    using handlePredict_stores [of s rnd] by blast
  have table: "triggered_factors r = fired (factors s)"
    by (simp only: tr triggeredFactors_fired)
  show ?thesis
    apply (rule exI [of _ r])
    apply (simp only: r table [symmetric] refl simp_thms labels_distinct length_spec_rules)
    apply (simp only: tr label_iff simp_thms)
    done
qed

text \<open>
  C2. The comparisons are strict. When every numeric field is at its default or exactly
  at its threshold (200, 30, -15, 45 or 150, 90, 38.5), the signal status is normal and
  no fall is detected, the handler stores an empty list and a false flag. With a silent
  signal, 20 minutes of inactivity do not give "Silent behavior", 21 minutes do.
\<close>

theorem boundary_values_do_not_trigger:
  "(deviation_score (factors s) \<in> {Fin 0, Fin 200}
      \<and> time_since_last_activity (factors s) \<in> {Fin 0, Fin 30}
      \<and> signal_status (factors s) = ''normal''
      \<and> altitude_change (factors s) \<in> {Fin 0, Fin (- 15)}
      \<and> heart_rate (factors s) \<in> {Fin 70, Fin 45, Fin 150}
      \<and> oxygen_saturation (factors s) \<in> {Fin 98, Fin 90}
      \<and> body_temperature (factors s) \<in> {Fin 36.5, Fin 38.5}
      \<and> fall_detected (factors s) = False
     \<longrightarrow> (\<exists>r. prediction_st (handlePredict s rnd) = Some r
            \<and> triggered_factors r = [] \<and> anomaly_flag r = False))
   \<and> (signal_status (factors s) = ''silent'' \<and> time_since_last_activity (factors s) = Fin 20
     \<longrightarrow> (\<exists>r. prediction_st (handlePredict s rnd) = Some r
            \<and> ''Silent behavior'' \<notin> set (triggered_factors r)))
   \<and> (signal_status (factors s) = ''silent'' \<and> time_since_last_activity (factors s) = Fin 21
     \<longrightarrow> (\<exists>r. prediction_st (handlePredict s rnd) = Some r
            \<and> ''Silent behavior'' \<in> set (triggered_factors r)))"
proof (intro conjI impI)
  assume "deviation_score (factors s) \<in> {Fin 0, Fin 200}
      \<and> time_since_last_activity (factors s) \<in> {Fin 0, Fin 30}
      \<and> signal_status (factors s) = ''normal''
      \<and> altitude_change (factors s) \<in> {Fin 0, Fin (- 15)}
      \<and> heart_rate (factors s) \<in> {Fin 70, Fin 45, Fin 150}
      \<and> oxygen_saturation (factors s) \<in> {Fin 98, Fin 90}
      \<and> body_temperature (factors s) \<in> {Fin 36.5, Fin 38.5}
      \<and> fall_detected (factors s) = False"
  then have "triggeredFactors (factors s) = []"
    by (intro boundary_none) blast+
  then show "\<exists>r. prediction_st (handlePredict s rnd) = Some r
            \<and> triggered_factors r = [] \<and> anomaly_flag r = False"
    by (simp add: handlePredict_final)
next
  assume "signal_status (factors s) = ''silent'' \<and> time_since_last_activity (factors s) = Fin 20"
  then have "''Silent behavior'' \<notin> set (triggeredFactors (factors s))"
    by (simp add: label_iff(3) js_gt_def)
  then show "\<exists>r. prediction_st (handlePredict s rnd) = Some r
            \<and> ''Silent behavior'' \<notin> set (triggered_factors r)"
    by (simp add: handlePredict_final)
next
  assume "signal_status (factors s) = ''silent'' \<and> time_since_last_activity (factors s) = Fin 21"
  then have "''Silent behavior'' \<in> set (triggeredFactors (factors s))"
    by (simp add: label_iff(3) js_gt_def)
  then show "\<exists>r. prediction_st (handlePredict s rnd) = Some r
            \<and> ''Silent behavior'' \<in> set (triggered_factors r)"
    by (simp add: handlePredict_final)
qed

text \<open>
  The theorem at the record with every field on its threshold (heart rate 45, then
  150), and at the silent records with 20 and 21 minutes.
\<close>

theorem boundary_values_do_not_trigger_witness:
  "(\<exists>r. prediction_st (handlePredict
          (MLDashboard\<lparr>factors :=
             \<lparr>deviation_score = Fin 200, time_since_last_activity = Fin 30,
              signal_status = ''normal'', altitude_change = Fin (- 15), heart_rate = Fin 45,
              oxygen_saturation = Fin 90, body_temperature = Fin 38.5,
              fall_detected = False\<rparr>\<rparr>) (1 / 2)) = Some r
        \<and> triggered_factors r = [] \<and> anomaly_flag r = False)
   \<and> (\<exists>r. prediction_st (handlePredict
          (MLDashboard\<lparr>factors :=
             \<lparr>deviation_score = Fin 200, time_since_last_activity = Fin 30,
              signal_status = ''normal'', altitude_change = Fin (- 15), heart_rate = Fin 150,
              oxygen_saturation = Fin 90, body_temperature = Fin 38.5,
              fall_detected = False\<rparr>\<rparr>) (1 / 2)) = Some r
        \<and> triggered_factors r = [] \<and> anomaly_flag r = False)
   \<and> (\<exists>r. prediction_st (handlePredict
          (MLDashboard\<lparr>factors :=
             default_factors\<lparr>signal_status := ''silent'',
               time_since_last_activity := Fin 20\<rparr>\<rparr>) (1 / 2)) = Some r
        \<and> ''Silent behavior'' \<notin> set (triggered_factors r))
   \<and> (\<exists>r. prediction_st (handlePredict
          (MLDashboard\<lparr>factors :=
             default_factors\<lparr>signal_status := ''silent'',
               time_since_last_activity := Fin 21\<rparr>\<rparr>) (1 / 2)) = Some r
        \<and> ''Silent behavior'' \<in> set (triggered_factors r))"
  using
    boundary_values_do_not_trigger [of "MLDashboard\<lparr>factors :=
             \<lparr>deviation_score = Fin 200, time_since_last_activity = Fin 30,
              signal_status = ''normal'', altitude_change = Fin (- 15), heart_rate = Fin 45,
              oxygen_saturation = Fin 90, body_temperature = Fin 38.5,
              fall_detected = False\<rparr>\<rparr>" "1 / 2"]
    boundary_values_do_not_trigger [of "MLDashboard\<lparr>factors :=
             \<lparr>deviation_score = Fin 200, time_since_last_activity = Fin 30,
              signal_status = ''normal'', altitude_change = Fin (- 15), heart_rate = Fin 150,
              oxygen_saturation = Fin 90, body_temperature = Fin 38.5,
              fall_detected = False\<rparr>\<rparr>" "1 / 2"]
    boundary_values_do_not_trigger [of "MLDashboard\<lparr>factors :=
             default_factors\<lparr>signal_status := ''silent'',
               time_since_last_activity := Fin 20\<rparr>\<rparr>" "1 / 2"]
    boundary_values_do_not_trigger [of "MLDashboard\<lparr>factors :=
             default_factors\<lparr>signal_status := ''silent'',
               time_since_last_activity := Fin 21\<rparr>\<rparr>" "1 / 2"]
  by simp

text \<open>
  C3. For every input record, the stored anomaly flag is true if and only if the stored
  list of triggered factors is not empty, that is, if and only if the predicate of at
  least one of the ten rules holds.
\<close>

theorem anomaly_flag_iff_triggered:
  "\<exists>r. prediction_st (handlePredict s rnd) = Some r
      \<and> anomaly_flag r = (triggered_factors r \<noteq> [])
      \<and> anomaly_flag r = (\<exists>rule \<in> set spec_rules. fst rule (factors s))"
proof -
  have "(triggeredFactors (factors s) \<noteq> []) = (\<exists>rule \<in> set spec_rules. fst rule (factors s))"
    by (simp only: triggeredFactors_fired fired_nonempty)
  then show ?thesis
    by (simp add: handlePredict_final)
qed

text \<open>
  C4. After \<^verbatim>\<open>loadSampleData\<close>, whatever the state was before, the handler stores the
  eight labels of the documented sample record, in this order, and a true anomaly flag.
\<close>

theorem sample_anomaly_record:
  "\<exists>r. prediction_st (handlePredict (loadSampleData s) rnd) = Some r
      \<and> triggered_factors r =
          [''Route deviation'', ''Prolonged inactivity'', ''Silent behavior'',
           ''Sudden altitude drop'', ''Heart rate anomaly'', ''Oxygen anomaly'',
           ''Temperature anomaly'', ''Fall detected'']
      \<and> anomaly_flag r = True"
proof -
  have "factors (loadSampleData s) = sample_factors"
    by (simp add: loadSampleData_def)
  then show ?thesis
    by (simp add: handlePredict_final triggeredFactors_sample)
qed

text \<open>
  C5. For each of the ten rules: when the predicate of rule \<open>i\<close> holds on the input and
  the predicate of no other rule does, the handler stores the one-element list with the
  label of rule \<open>i\<close>, and a true flag.
\<close>

theorem exactly_one_rule_gives_singleton:
  assumes "i < length spec_rules"
    and "\<forall>j<length spec_rules. fst (spec_rules ! j) (factors s) = (j = i)"
  shows "\<exists>r. prediction_st (handlePredict s rnd) = Some r
           \<and> triggered_factors r = [snd (spec_rules ! i)] \<and> anomaly_flag r = True"
proof -
  have "triggeredFactors (factors s) = [snd (spec_rules ! i)]"
    using assms by (rule only_rule)
  then show ?thesis
    by (simp add: handlePredict_final)
qed

text \<open>
  The theorem at ten records, one for each rule: the default factor set with the one
  field (for rule 3, the two fields) changed that makes this rule fire alone.
\<close>

theorem exactly_one_rule_gives_singleton_witness:
  "(\<exists>r. prediction_st (handlePredict (MLDashboard\<lparr>factors :=
          default_factors\<lparr>deviation_score := Fin 250\<rparr>\<rparr>) (1 / 2)) = Some r
        \<and> triggered_factors r = [''Route deviation''] \<and> anomaly_flag r = True)
   \<and> (\<exists>r. prediction_st (handlePredict (MLDashboard\<lparr>factors :=
          default_factors\<lparr>time_since_last_activity := Fin 35\<rparr>\<rparr>) (1 / 2)) = Some r
        \<and> triggered_factors r = [''Prolonged inactivity''] \<and> anomaly_flag r = True)
   \<and> (\<exists>r. prediction_st (handlePredict (MLDashboard\<lparr>factors :=
          default_factors\<lparr>signal_status := ''silent'',
            time_since_last_activity := Fin 25\<rparr>\<rparr>) (1 / 2)) = Some r
        \<and> triggered_factors r = [''Silent behavior''] \<and> anomaly_flag r = True)
   \<and> (\<exists>r. prediction_st (handlePredict (MLDashboard\<lparr>factors :=
          default_factors\<lparr>signal_status := ''missing''\<rparr>\<rparr>) (1 / 2)) = Some r
        \<and> triggered_factors r = [''Missing signal''] \<and> anomaly_flag r = True)
   \<and> (\<exists>r. prediction_st (handlePredict (MLDashboard\<lparr>factors :=
          default_factors\<lparr>signal_status := ''distress''\<rparr>\<rparr>) (1 / 2)) = Some r
        \<and> triggered_factors r = [''Distress signal''] \<and> anomaly_flag r = True)
   \<and> (\<exists>r. prediction_st (handlePredict (MLDashboard\<lparr>factors :=
          default_factors\<lparr>altitude_change := Fin (- 20)\<rparr>\<rparr>) (1 / 2)) = Some r
        \<and> triggered_factors r = [''Sudden altitude drop''] \<and> anomaly_flag r = True)
   \<and> (\<exists>r. prediction_st (handlePredict (MLDashboard\<lparr>factors :=
          default_factors\<lparr>heart_rate := Fin 40\<rparr>\<rparr>) (1 / 2)) = Some r
        \<and> triggered_factors r = [''Heart rate anomaly''] \<and> anomaly_flag r = True)
   \<and> (\<exists>r. prediction_st (handlePredict (MLDashboard\<lparr>factors :=
          default_factors\<lparr>oxygen_saturation := Fin 85\<rparr>\<rparr>) (1 / 2)) = Some r
        \<and> triggered_factors r = [''Oxygen anomaly''] \<and> anomaly_flag r = True)
   \<and> (\<exists>r. prediction_st (handlePredict (MLDashboard\<lparr>factors :=
          default_factors\<lparr>body_temperature := Fin 39.2\<rparr>\<rparr>) (1 / 2)) = Some r
        \<and> triggered_factors r = [''Temperature anomaly''] \<and> anomaly_flag r = True)
   \<and> (\<exists>r. prediction_st (handlePredict (MLDashboard\<lparr>factors :=
          default_factors\<lparr>fall_detected := True\<rparr>\<rparr>) (1 / 2)) = Some r
        \<and> triggered_factors r = [''Fall detected''] \<and> anomaly_flag r = True)"
proof -
  have len: "0 < length spec_rules" "1 < length spec_rules" "2 < length spec_rules"
    "3 < length spec_rules" "4 < length spec_rules" "5 < length spec_rules"
    "6 < length spec_rules" "7 < length spec_rules" "8 < length spec_rules"
    "9 < length spec_rules"
    by (simp_all add: length_spec_rules)
  have h0: "\<forall>j<length spec_rules. fst (spec_rules ! j)
      (factors (MLDashboard\<lparr>factors := default_factors\<lparr>deviation_score := Fin 250\<rparr>\<rparr>)) = (j = 0)"
    unfolding all_rules by (simp add: spec_rules_def default_factors_def js_gt_def)
  have h1: "\<forall>j<length spec_rules. fst (spec_rules ! j)
      (factors (MLDashboard\<lparr>factors := default_factors\<lparr>time_since_last_activity := Fin 35\<rparr>\<rparr>)) = (j = 1)"
    unfolding all_rules by (simp add: spec_rules_def default_factors_def js_gt_def)
  have h2: "\<forall>j<length spec_rules. fst (spec_rules ! j)
      (factors (MLDashboard\<lparr>factors := default_factors\<lparr>signal_status := ''silent'',
            time_since_last_activity := Fin 25\<rparr>\<rparr>)) = (j = 2)"
    unfolding all_rules by (simp add: spec_rules_def default_factors_def js_gt_def)
  have h3: "\<forall>j<length spec_rules. fst (spec_rules ! j)
      (factors (MLDashboard\<lparr>factors := default_factors\<lparr>signal_status := ''missing''\<rparr>\<rparr>)) = (j = 3)"
    unfolding all_rules by (simp add: spec_rules_def default_factors_def js_gt_def)
  have h4: "\<forall>j<length spec_rules. fst (spec_rules ! j)
      (factors (MLDashboard\<lparr>factors := default_factors\<lparr>signal_status := ''distress''\<rparr>\<rparr>)) = (j = 4)"
    unfolding all_rules by (simp add: spec_rules_def default_factors_def js_gt_def)
  have h5: "\<forall>j<length spec_rules. fst (spec_rules ! j)
      (factors (MLDashboard\<lparr>factors := default_factors\<lparr>altitude_change := Fin (- 20)\<rparr>\<rparr>)) = (j = 5)"
    unfolding all_rules by (simp add: spec_rules_def default_factors_def js_gt_def)
  have h6: "\<forall>j<length spec_rules. fst (spec_rules ! j)
      (factors (MLDashboard\<lparr>factors := default_factors\<lparr>heart_rate := Fin 40\<rparr>\<rparr>)) = (j = 6)"
    unfolding all_rules by (simp add: spec_rules_def default_factors_def js_gt_def)
  have h7: "\<forall>j<length spec_rules. fst (spec_rules ! j)
      (factors (MLDashboard\<lparr>factors := default_factors\<lparr>oxygen_saturation := Fin 85\<rparr>\<rparr>)) = (j = 7)"
    unfolding all_rules by (simp add: spec_rules_def default_factors_def js_gt_def)
  have h8: "\<forall>j<length spec_rules. fst (spec_rules ! j)
      (factors (MLDashboard\<lparr>factors := default_factors\<lparr>body_temperature := Fin 39.2\<rparr>\<rparr>)) = (j = 8)"
    unfolding all_rules by (simp add: spec_rules_def default_factors_def js_gt_def)
  have h9: "\<forall>j<length spec_rules. fst (spec_rules ! j)
      (factors (MLDashboard\<lparr>factors := default_factors\<lparr>fall_detected := True\<rparr>\<rparr>)) = (j = 9)"
    unfolding all_rules by (simp add: spec_rules_def default_factors_def js_gt_def)
  show ?thesis
    using exactly_one_rule_gives_singleton [OF len(1) h0, of "1 / 2"]
      exactly_one_rule_gives_singleton [OF len(2) h1, of "1 / 2"]
      exactly_one_rule_gives_singleton [OF len(3) h2, of "1 / 2"]
      exactly_one_rule_gives_singleton [OF len(4) h3, of "1 / 2"]
      exactly_one_rule_gives_singleton [OF len(5) h4, of "1 / 2"]
      exactly_one_rule_gives_singleton [OF len(6) h5, of "1 / 2"]
      exactly_one_rule_gives_singleton [OF len(7) h6, of "1 / 2"]
      exactly_one_rule_gives_singleton [OF len(8) h7, of "1 / 2"]
      exactly_one_rule_gives_singleton [OF len(9) h8, of "1 / 2"]
      exactly_one_rule_gives_singleton [OF len(10) h9, of "1 / 2"]
    unfolding rule_labels
    by (intro conjI) assumption+
qed

text \<open>
  C6. On the initial state of the component, whose factors are the default factor set,
  the handler stores an empty list of triggered factors and a false anomaly flag.
\<close>

theorem default_factor_set:
  "\<exists>r. prediction_st (handlePredict MLDashboard rnd) = Some r
      \<and> triggered_factors r = [] \<and> anomaly_flag r = False"
proof -
  have "factors MLDashboard = default_factors"
    by (simp add: MLDashboard_def)
  then show ?thesis
    by (simp add: handlePredict_final triggeredFactors_default)
qed

text \<open>
  C7. Two runs of the handler on the same factors store the same list of triggered
  factors and the same flag, whatever the random draws are and whatever else the two
  states hold (an earlier prediction, the loading flag, the toasts).
\<close>

theorem evaluation_deterministic:
  assumes "factors s1 = factors s2"
  shows "\<exists>r1 r2. prediction_st (handlePredict s1 rnd1) = Some r1
           \<and> prediction_st (handlePredict s2 rnd2) = Some r2
           \<and> triggered_factors r1 = triggered_factors r2
           \<and> anomaly_flag r1 = anomaly_flag r2"
proof -
  obtain r1 where r1: "prediction_st (handlePredict s1 rnd1) = Some r1"
    and t1: "triggered_factors r1 = triggeredFactors (factors s1)"
    and a1: "anomaly_flag r1 = (triggeredFactors (factors s1) \<noteq> [])"
    using handlePredict_stores [of s1 rnd1] by blast
  obtain r2 where r2: "prediction_st (handlePredict s2 rnd2) = Some r2"
    and t2: "triggered_factors r2 = triggeredFactors (factors s2)"
    and a2: "anomaly_flag r2 = (triggeredFactors (factors s2) \<noteq> [])"
    using handlePredict_stores [of s2 rnd2] by blast
  have "triggered_factors r1 = triggered_factors r2"
    using assms t1 t2 by simp
  moreover have "anomaly_flag r1 = anomaly_flag r2"
    using assms a1 a2 by simp
  ultimately show ?thesis
    using r1 r2 by blast
qed

text \<open>
  The theorem at the state after \<^verbatim>\<open>loadSampleData\<close> and at the state a first run
  of the handler leaves, which holds a prediction and one more toast, with two
  different draws.
\<close>

theorem evaluation_deterministic_witness:
  "\<exists>r1 r2. prediction_st (handlePredict (loadSampleData MLDashboard) (1 / 4)) = Some r1
      \<and> prediction_st
           (handlePredict (handlePredict (loadSampleData MLDashboard) (1 / 4)) (3 / 4)) = Some r2
      \<and> triggered_factors r1 = triggered_factors r2
      \<and> anomaly_flag r1 = anomaly_flag r2"
proof -
  have same: "factors (loadSampleData MLDashboard)
      = factors (handlePredict (loadSampleData MLDashboard) (1 / 4))"
    by (simp only: handlePredict_factors)
  show ?thesis
    using evaluation_deterministic [OF same, of "1 / 4" "3 / 4"] .
qed

text \<open>
  C8. The handler has no failing path: for every state and every draw the
  \<^verbatim>\<open>try\<close> block returns a record, which is stored; the list in it is the one the rule
  table gives for the fields as they are, with no validation; the toast is the success
  toast and the loading flag is reset.
\<close>

theorem handlePredict_never_fails:
  "\<exists>r. handlePredict_try (factors s) rnd = Inr r
      \<and> prediction_st (handlePredict s rnd) = Some r
      \<and> triggered_factors r = fired (factors s)
      \<and> anomaly_flag r = (fired (factors s) \<noteq> [])
      \<and> toasts (handlePredict s rnd)
          = push (toasts s) (Success ''Prediction completed successfully!'')
      \<and> isLoading (handlePredict s rnd) = False"
  by (simp add: handlePredict_final handlePredict_try_Inr push_def triggeredFactors_fired)

text \<open>
  C9. The stored list has no label twice and at most ten elements; the ten labels of
  the table are pairwise distinct.
\<close>

theorem no_duplicate_labels:
  "\<exists>r. prediction_st (handlePredict s rnd) = Some r
      \<and> distinct (triggered_factors r) \<and> length (triggered_factors r) \<le> 10
      \<and> distinct (map snd spec_rules)"
  by (simp add: handlePredict_final triggered_distinct triggered_length labels_distinct)

text \<open>
  C10. At most one of the labels "Silent behavior", "Missing signal" and "Distress
  signal" is in the stored list.
\<close>

theorem at_most_one_signal_label:
  "\<exists>r. prediction_st (handlePredict s rnd) = Some r
      \<and> length (filter (\<lambda>l. l \<in> {''Silent behavior'', ''Missing signal'', ''Distress signal''})
           (triggered_factors r)) \<le> 1"
  using signal_labels_length [of "factors s"] by (simp add: handlePredict_final)

end
